theory Spec2Isabelle
  imports Complex_Main
begin

section \<open>Bounding box manager (the registry of proxy volumes)\<close>

text \<open>
  Numbers of the source are JavaScript doubles; they are modelled as reals, so rounding,
  infinities and NaN are outside the model.  Objects that the source shares by reference
  (meshes, Set objects) live in explicit stores and are named by their index.
\<close>

record vector3 =
  vx :: real
  vy :: real
  vz :: real

text \<open>The entity's position: \<open>z\<close> may be missing (\<open>entity.position.z ?? 0\<close>).\<close>

record entity_position =
  pos_x :: real
  pos_y :: real
  pos_z :: "real option"

text \<open>
  An entity as the registry reads it.  The empty string stands for a missing or empty
  \<open>uuid\<close> (both are falsy); optional fields are options.
\<close>

record entity =
  uuid :: string
  ent_name :: "string option"
  position :: entity_position
  xScale :: "real option"
  yScale :: "real option"
  rotation :: "real option"

record boundingBoxDef =
  bb_width :: real
  bb_height :: real
  bb_x :: real
  bb_y :: real

text \<open>The three shared materials; a mesh holds a reference to one of them.\<close>

datatype material_ref = Default_material | Selected_material | Hover_material

fun material_visible :: "material_ref \<Rightarrow> bool" where
  "material_visible Default_material = False"
| "material_visible Selected_material = True"
| "material_visible Hover_material = True"

record mesh =
  mesh_name :: string
  mesh_scale :: vector3
  rotation_z :: real
  mesh_position :: vector3
  entityUUID :: string
  material :: material_ref
  visible :: bool

text \<open>
  \<open>new THREE.Mesh(geometry, material)\<close>: the three.js constructor gives an object at the
  origin, unrotated, with unit scale, an empty name, empty \<open>userData\<close> and
  \<open>visible = true\<close>.
\<close>

definition new_Mesh :: "material_ref \<Rightarrow> mesh" where
  "new_Mesh mat =
     \<lparr> mesh_name = '''',
       mesh_scale = \<lparr> vx = 1, vy = 1, vz = 1 \<rparr>,
       rotation_z = 0,
       mesh_position = \<lparr> vx = 0, vy = 0, vz = 0 \<rparr>,
       entityUUID = '''',
       material = mat,
       visible = True \<rparr>"

text \<open>
  The manager: \<open>meshes\<close> is the store of mesh objects, \<open>meshMap\<close> the insertion-ordered
  JavaScript Map from uuid to mesh, \<open>boundingBoxMeshList\<close> the array of meshes and
  \<open>scene\<close> the meshes that are children of the scene.
\<close>

record manager =
  meshes :: "mesh list"
  meshMap :: "(string \<times> nat) list"
  boundingBoxMeshList :: "nat list"
  scene :: "nat list"

definition new_BoundingBoxManager :: manager where
  "new_BoundingBoxManager =
     \<lparr> meshes = [], meshMap = [], boundingBoxMeshList = [], scene = [] \<rparr>"

text \<open>\<open>Map.prototype.set\<close>: an existing key keeps its place and gets the new value.\<close>

fun Map_set :: "string \<Rightarrow> nat \<Rightarrow> (string \<times> nat) list \<Rightarrow> (string \<times> nat) list" where
  "Map_set k v [] = [(k, v)]"
| "Map_set k v ((k', v') # kvs) =
     (if k' = k then (k, v) # kvs else (k', v') # Map_set k v kvs)"

definition Map_get :: "(string \<times> nat) list \<Rightarrow> string \<Rightarrow> nat option" where
  "Map_get m k = map_of m k"

definition Map_has :: "(string \<times> nat) list \<Rightarrow> string \<Rightarrow> bool" where
  "Map_has m k = (map_of m k \<noteq> None)"

definition degToRad :: "real \<Rightarrow> real" where
  "degToRad d = d * (pi / 180)"

text \<open>\<open>Vector2.rotateAround\<close> about the origin.\<close>

definition rotateAround0 :: "real \<times> real \<Rightarrow> real \<Rightarrow> real \<times> real" where
  "rotateAround0 p a =
     (fst p * cos a - snd p * sin a, fst p * sin a + snd p * cos a)"

text \<open>\<open>if (entity.rotation)\<close>: the rotation when it is present and not zero.\<close>

definition truthy_rotation :: "entity \<Rightarrow> real option" where
  "truthy_rotation e =
     (case rotation e of None \<Rightarrow> None | Some r \<Rightarrow> if r = 0 then None else Some r)"

definition or_default :: "real option \<Rightarrow> real \<Rightarrow> real" where
  "or_default v d = (case v of None \<Rightarrow> d | Some r \<Rightarrow> r)"

text \<open>The mesh that \<open>createBoundingBox\<close> builds before it registers it.\<close>

definition build_mesh :: "entity \<Rightarrow> boundingBoxDef \<Rightarrow> mesh" where
  "build_mesh e d =
     (let m0 = new_Mesh Default_material;
          nm = ''bbox_'' @ (case ent_name e of
                              None \<Rightarrow> uuid e
                            | Some n \<Rightarrow> if n = '''' then uuid e else n);
          scaleX = bb_width d * or_default (xScale e) 1;
          scaleY = bb_height d * or_default (yScale e) 1;
          rz = (case truthy_rotation e of
                  None \<Rightarrow> rotation_z m0
                | Some deg \<Rightarrow> degToRad deg);
          c0 = (bb_x d, bb_y d);
          c1 = (case truthy_rotation e of
                  None \<Rightarrow> c0
                | Some deg \<Rightarrow> rotateAround0 c0 (degToRad deg));
          cx = fst c1 * or_default (xScale e) 1;
          cy = snd c1 * or_default (yScale e) 1
      in m0 \<lparr> mesh_name := nm,
              mesh_scale := \<lparr> vx = scaleX, vy = scaleY, vz = 1 \<rparr>,
              rotation_z := rz,
              mesh_position := \<lparr> vx = pos_x (position e) + cx,
                                 vy = pos_y (position e) + cy,
                                 vz = or_default (pos_z (position e)) 0 \<rparr>,
              entityUUID := uuid e \<rparr>)"

text \<open>
  \<open>createBoundingBox(entity, boundingBoxDef)\<close>: returns the new mesh (its reference) or
  null, and the updated manager.
\<close>

definition createBoundingBox ::
  "entity option \<Rightarrow> boundingBoxDef option \<Rightarrow> manager \<Rightarrow> nat option \<times> manager" where
  "createBoundingBox eo bo mgr =
     (case bo of
        None \<Rightarrow> (None, mgr)
      | Some d \<Rightarrow>
          (case eo of
             None \<Rightarrow> (None, mgr)
           | Some e \<Rightarrow>
               if uuid e = '''' then (None, mgr)
               else
                 (let r = length (meshes mgr)
                  in (Some r,
                      mgr \<lparr> meshes := meshes mgr @ [build_mesh e d],
                            meshMap := Map_set (uuid e) r (meshMap mgr),
                            boundingBoxMeshList := boundingBoxMeshList mgr @ [r],
                            scene := scene mgr @ [r] \<rparr>))))"

record visual_state =
  vs_selected :: bool
  vs_hovered :: bool

definition setVisualState :: "string \<Rightarrow> visual_state \<Rightarrow> manager \<Rightarrow> manager" where
  "setVisualState eid state mgr =
     (case Map_get (meshMap mgr) eid of
        None \<Rightarrow> mgr
      | Some r \<Rightarrow>
          if vs_selected state then
            mgr \<lparr> meshes := (meshes mgr)[r := (meshes mgr ! r)
                      \<lparr> material := Selected_material, visible := True \<rparr>] \<rparr>
          else if vs_hovered state then
            mgr \<lparr> meshes := (meshes mgr)[r := (meshes mgr ! r)
                      \<lparr> material := Hover_material, visible := True \<rparr>] \<rparr>
          else
            mgr \<lparr> meshes := (meshes mgr)[r := (meshes mgr ! r)
                      \<lparr> material := Default_material, visible := False \<rparr>] \<rparr>)"

definition getMesh :: "manager \<Rightarrow> string \<Rightarrow> nat option" where
  "getMesh mgr eid = Map_get (meshMap mgr) eid"

text \<open>
  \<open>dispose()\<close> of the manager: every mesh that is a value of \<open>meshMap\<close> leaves the scene,
  then the map and the list are emptied.  (Releasing the shared geometry and materials
  has no counterpart in this model.)
\<close>

definition manager_dispose :: "manager \<Rightarrow> manager" where
  "manager_dispose mgr =
     mgr \<lparr> scene := filter (\<lambda>r. r \<notin> snd ` set (meshMap mgr)) (scene mgr),
           meshMap := [],
           boundingBoxMeshList := [] \<rparr>"

section \<open>Boxes\<close>

record box3 =
  box_min :: vector3
  box_max :: vector3

definition expandByPoint :: "vector3 \<Rightarrow> box3 \<Rightarrow> box3" where
  "expandByPoint p b =
     \<lparr> box_min = \<lparr> vx = min (vx (box_min b)) (vx p),
                    vy = min (vy (box_min b)) (vy p),
                    vz = min (vz (box_min b)) (vz p) \<rparr>,
       box_max = \<lparr> vx = max (vx (box_max b)) (vx p),
                    vy = max (vy (box_max b)) (vy p),
                    vz = max (vz (box_max b)) (vz p) \<rparr> \<rparr>"

text \<open>
  \<open>Box3.setFromPoints\<close> on a non-empty array (first point and the others): the smallest
  axis-aligned box that holds every point.
\<close>

definition setFromPoints :: "vector3 \<Rightarrow> vector3 list \<Rightarrow> box3" where
  "setFromPoints p ps = fold expandByPoint ps \<lparr> box_min = p, box_max = p \<rparr>"

text \<open>
  The world matrix of a mesh composes scale, then rotation about Z, then translation; this
  is where it sends the point \<open>(a, b, 0)\<close> of the unit plane geometry.
\<close>

definition localToWorld :: "mesh \<Rightarrow> real \<Rightarrow> real \<Rightarrow> vector3" where
  "localToWorld m a b =
     (let sx = a * vx (mesh_scale m); sy = b * vy (mesh_scale m)
      in \<lparr> vx = vx (mesh_position m) + (sx * cos (rotation_z m) - sy * sin (rotation_z m)),
           vy = vy (mesh_position m) + (sx * sin (rotation_z m) + sy * cos (rotation_z m)),
           vz = vz (mesh_position m) \<rparr>)"

text \<open>
  \<open>new THREE.Box3().setFromObject(mesh)\<close>: the axis-aligned world box of the corners of
  the \<open>1 \<times> 1\<close> plane geometry.
\<close>

definition setFromObject :: "mesh \<Rightarrow> box3" where
  "setFromObject m =
     setFromPoints (localToWorld m (- (1/2)) (- (1/2)))
       [localToWorld m (- (1/2)) (1/2), localToWorld m (1/2) (- (1/2)),
        localToWorld m (1/2) (1/2)]"

definition containsBox :: "box3 \<Rightarrow> box3 \<Rightarrow> bool" where
  "containsBox this b =
     (vx (box_min this) \<le> vx (box_min b) \<and> vx (box_max b) \<le> vx (box_max this) \<and>
      vy (box_min this) \<le> vy (box_min b) \<and> vy (box_max b) \<le> vy (box_max this) \<and>
      vz (box_min this) \<le> vz (box_min b) \<and> vz (box_max b) \<le> vz (box_max this))"

definition intersectsBox :: "box3 \<Rightarrow> box3 \<Rightarrow> bool" where
  "intersectsBox this b =
     (\<not> (vx (box_max b) < vx (box_min this) \<or> vx (box_max this) < vx (box_min b) \<or>
         vy (box_max b) < vy (box_min this) \<or> vy (box_max this) < vy (box_min b) \<or>
         vz (box_max b) < vz (box_min this) \<or> vz (box_max this) < vz (box_min b)))"

section \<open>The selection controller\<close>

text \<open>A value that is \<open>null\<close>, \<open>undefined\<close> or a string.\<close>

datatype js_uuid = Null | Undefined | Uuid string

fun truthy :: "js_uuid \<Rightarrow> bool" where
  "truthy Null = False"
| "truthy Undefined = False"
| "truthy (Uuid u) = (u \<noteq> '''')"

record pointer_event =
  button :: nat
  target_is_container :: bool
  target_present :: bool
  clientX :: real
  clientY :: real
  ctrlKey :: bool
  metaKey :: bool

record key_event =
  key :: string
  key_ctrlKey :: bool
  key_metaKey :: bool
  defaultPrevented :: bool

text \<open>The container element: its client rectangle, its size and its parent's rectangle.\<close>

record container =
  rect_left :: real
  rect_top :: real
  clientWidth :: real
  clientHeight :: real
  parent_left :: real
  parent_top :: real

datatype camera_kind = OrthographicCamera | PerspectiveCamera | OtherCamera

text \<open>The camera: its kind and what \<open>Vector3.unproject(camera)\<close> computes with it.\<close>

record camera =
  kind :: camera_kind
  unproject :: "vector3 \<Rightarrow> vector3"

record dom_box =
  style_left :: real
  style_top :: real
  style_width :: real
  style_height :: real

text \<open>
  The controller together with the objects it reaches.  \<open>set_store\<close> holds the Set objects
  (a Set is its elements in insertion order), \<open>next_ref\<close> is the next free reference and
  \<open>selectedEntities\<close> the reference of the selection Set.  \<open>events\<close> lists the events
  triggered so far with the reference of each payload.  \<open>materials_default_visible\<close> is the
  truth value of \<open>this.materials?.default?.visible\<close> read on the controller; the
  controller never assigns \<open>materials\<close>.
\<close>

record select_state =
  container :: container
  camera :: camera
  boundingBoxManager :: manager
  selectedEntities :: nat
  hoveredEntityUUID :: js_uuid
  isMouseDown :: bool
  isDragging :: bool
  startPoint :: "real \<times> real"
  selectionBoxElement :: "dom_box option"
  pointer :: "real \<times> real"
  materials_default_visible :: bool
  set_store :: "nat \<Rightarrow> string list"
  next_ref :: nat
  events :: "(string \<times> nat) list"

definition new_Select :: "container \<Rightarrow> camera \<Rightarrow> manager \<Rightarrow> select_state" where
  "new_Select c cam mgr =
     \<lparr> container = c, camera = cam, boundingBoxManager = mgr,
       selectedEntities = 0, hoveredEntityUUID = Null,
       isMouseDown = False, isDragging = False, startPoint = (0, 0),
       selectionBoxElement = None, pointer = (0, 0),
       materials_default_visible = False,
       set_store = (\<lambda>_. []), next_ref = 1, events = [] \<rparr>"

text \<open>The elements of the selection Set, in insertion order.\<close>

definition sel :: "select_state \<Rightarrow> string list" where
  "sel st = set_store st (selectedEntities st)"

definition Set_add :: "string \<Rightarrow> string list \<Rightarrow> string list" where
  "Set_add u s = (if u \<in> set s then s else s @ [u])"

definition Set_delete :: "string \<Rightarrow> string list \<Rightarrow> string list" where
  "Set_delete u s = removeAll u s"

text \<open>\<open>new Set(s)\<close> for a Set \<open>s\<close>: a fresh Set object with the elements of \<open>s\<close>.\<close>

definition new_Set :: "string list \<Rightarrow> select_state \<Rightarrow> nat \<times> select_state" where
  "new_Set xs st =
     (next_ref st,
      st \<lparr> set_store := (set_store st)(next_ref st := xs),
           next_ref := Suc (next_ref st) \<rparr>)"

text \<open>
  Modelled from the spec: \<open>trigger\<close> belongs to the base class, which is not among the
  sources; it delivers the named event with its payload to the subscribers.
\<close>

definition trigger :: "string \<Rightarrow> nat \<Rightarrow> select_state \<Rightarrow> select_state" where
  "trigger ev_name payload st = st \<lparr> events := events st @ [(ev_name, payload)] \<rparr>"

definition select :: "string \<Rightarrow> select_state \<Rightarrow> select_state" where
  "select eid st =
     (if eid = '''' \<or> eid \<in> set (sel st) then st
      else st \<lparr> set_store := (set_store st)(selectedEntities st := Set_add eid (sel st)),
                boundingBoxManager :=
                  setVisualState eid \<lparr> vs_selected = True, vs_hovered = False \<rparr>
                    (boundingBoxManager st) \<rparr>)"

definition deselect :: "string \<Rightarrow> select_state \<Rightarrow> select_state" where
  "deselect eid st =
     (if eid = '''' \<or> eid \<notin> set (sel st) then st
      else st \<lparr> set_store := (set_store st)(selectedEntities st := Set_delete eid (sel st)),
                boundingBoxManager :=
                  setVisualState eid
                    \<lparr> vs_selected = False, vs_hovered = (hoveredEntityUUID st = Uuid eid) \<rparr>
                    (boundingBoxManager st) \<rparr>)"

text \<open>\<open>deselectAll\<close> walks a copy of the selection.\<close>

definition deselectAll :: "select_state \<Rightarrow> select_state" where
  "deselectAll st = fold deselect (sel st) st"

definition selectAll_step :: "nat \<Rightarrow> select_state \<Rightarrow> select_state" where
  "selectAll_step r st =
     (let u = entityUUID (meshes (boundingBoxManager st) ! r)
      in if u \<noteq> '''' then select u st else st)"

definition selectAll :: "select_state \<Rightarrow> select_state" where
  "selectAll st = fold selectAll_step (boundingBoxMeshList (boundingBoxManager st)) st"

definition isSelected :: "select_state \<Rightarrow> string \<Rightarrow> bool" where
  "isSelected st eid = (eid \<in> set (sel st))"

definition performSingleClickSelection :: "string \<Rightarrow> bool \<Rightarrow> select_state \<Rightarrow> select_state" where
  "performSingleClickSelection clickedUUID isMultiSelect st =
     (let wasSelected = (clickedUUID \<in> set (sel st))
      in if isMultiSelect then
           (if wasSelected then deselect clickedUUID st else select clickedUUID st)
         else
           (let previouslySelected = sel st;
                st1 = deselectAll st
            in if \<not> (length previouslySelected = 1 \<and> wasSelected)
               then select clickedUUID st1 else st1))"

subsection \<open>Box selection\<close>

text \<open>Screen coordinates to normalised device coordinates.\<close>

definition toNDC :: "container \<Rightarrow> real \<times> real \<Rightarrow> real \<times> real" where
  "toNDC c p = (fst p / clientWidth c * 2 - 1, - (snd p / clientHeight c) * 2 + 1)"

definition get3DSelectionBox ::
  "select_state \<Rightarrow> real \<times> real \<Rightarrow> real \<times> real \<Rightarrow> box3 option" where
  "get3DSelectionBox st screenStart screenEnd =
     (let startNDC = toNDC (container st) screenStart;
          endNDC = toNDC (container st) screenEnd;
          near = - 1;
          far = 1;
          p0 = \<lparr> vx = fst startNDC, vy = snd startNDC, vz = near \<rparr>;
          ps = [\<lparr> vx = fst startNDC, vy = snd endNDC, vz = near \<rparr>,
                \<lparr> vx = fst endNDC, vy = snd endNDC, vz = near \<rparr>,
                \<lparr> vx = fst endNDC, vy = snd startNDC, vz = near \<rparr>,
                \<lparr> vx = fst startNDC, vy = snd startNDC, vz = far \<rparr>,
                \<lparr> vx = fst startNDC, vy = snd endNDC, vz = far \<rparr>,
                \<lparr> vx = fst endNDC, vy = snd endNDC, vz = far \<rparr>,
                \<lparr> vx = fst endNDC, vy = snd startNDC, vz = far \<rparr>]
      in case kind (camera st) of
           OrthographicCamera \<Rightarrow>
             Some (setFromPoints (unproject (camera st) p0) (map (unproject (camera st)) ps))
         | PerspectiveCamera \<Rightarrow>
             Some (setFromPoints (unproject (camera st) p0) (map (unproject (camera st)) ps))
         | OtherCamera \<Rightarrow> None)"

text \<open>
  The loop of \<open>_performBoxSelection\<close> over \<open>boundingBoxMeshList\<close> that fills the Set
  \<open>entitiesInBox\<close>.
\<close>

fun entitiesInBox_loop ::
  "select_state \<Rightarrow> box3 \<Rightarrow> nat list \<Rightarrow> string list \<Rightarrow> string list" where
  "entitiesInBox_loop st selectionBox3D [] acc = acc"
| "entitiesInBox_loop st selectionBox3D (r # rs) acc =
     (let m = meshes (boundingBoxManager st) ! r
      in if \<not> visible m \<and> \<not> materials_default_visible st
         then entitiesInBox_loop st selectionBox3D rs acc
         else if containsBox selectionBox3D (setFromObject m)
         then (if entityUUID m \<noteq> ''''
               then entitiesInBox_loop st selectionBox3D rs (Set_add (entityUUID m) acc)
               else entitiesInBox_loop st selectionBox3D rs acc)
         else entitiesInBox_loop st selectionBox3D rs acc)"

definition entitiesInBox :: "select_state \<Rightarrow> box3 \<Rightarrow> string list" where
  "entitiesInBox st selectionBox3D =
     entitiesInBox_loop st selectionBox3D (boundingBoxMeshList (boundingBoxManager st)) []"

definition performBoxSelection ::
  "real \<times> real \<Rightarrow> real \<times> real \<Rightarrow> bool \<Rightarrow> select_state \<Rightarrow> select_state" where
  "performBoxSelection screenStart screenEnd isMultiSelect st =
     (case get3DSelectionBox st screenStart screenEnd of
        None \<Rightarrow> st
      | Some selectionBox3D \<Rightarrow>
          (let found = entitiesInBox st selectionBox3D
           in if \<not> isMultiSelect then fold select found (deselectAll st)
              else fold select found st))"

subsection \<open>Hit test and hover\<close>

text \<open>
  \<open>_getIntersectedObject\<close> up to its \<open>await\<close>: without an event target it returns null at
  once, otherwise it sets the pointer and asks the raycaster.
\<close>

definition getIntersectedObject_begin :: "pointer_event \<Rightarrow> select_state \<Rightarrow> select_state" where
  "getIntersectedObject_begin ev st =
     (if \<not> target_present ev then st
      else st \<lparr> pointer :=
                  toNDC (container st)
                    (clientX ev - rect_left (container st),
                     clientY ev - rect_top (container st)) \<rparr>)"

text \<open>
  \<open>_getIntersectedObject\<close> from the raycaster's answer on: \<open>hit\<close> is the intersected
  object, a reference into the mesh store, or nothing.  An object outside the store is
  none of the manager's and has no \<open>entityUUID\<close>.
\<close>

definition getIntersectedObject_resume ::
  "pointer_event \<Rightarrow> nat option \<Rightarrow> select_state \<Rightarrow> nat option" where
  "getIntersectedObject_resume ev hit st =
     (if \<not> target_present ev then None
      else case hit of
             None \<Rightarrow> None
           | Some r \<Rightarrow>
               if r < length (meshes (boundingBoxManager st)) \<and>
                  Map_has (meshMap (boundingBoxManager st))
                    (entityUUID (meshes (boundingBoxManager st) ! r))
               then Some r else None)"

text \<open>\<open>intersectedMesh?.userData?.entityUUID\<close>\<close>

definition hit_uuid :: "select_state \<Rightarrow> nat option \<Rightarrow> js_uuid" where
  "hit_uuid st im =
     (case im of
        None \<Rightarrow> Undefined
      | Some r \<Rightarrow> Uuid (entityUUID (meshes (boundingBoxManager st) ! r)))"

definition restyle :: "string \<Rightarrow> visual_state \<Rightarrow> select_state \<Rightarrow> select_state" where
  "restyle eid vs st =
     st \<lparr> boundingBoxManager := setVisualState eid vs (boundingBoxManager st) \<rparr>"

text \<open>\<open>_updateHover\<close> from the answer of its hit test on.\<close>

definition updateHover_resume ::
  "pointer_event \<Rightarrow> nat option \<Rightarrow> select_state \<Rightarrow> select_state" where
  "updateHover_resume ev hit st =
     (let hoveredUUID = hit_uuid st (getIntersectedObject_resume ev hit st)
      in if hoveredEntityUUID st = hoveredUUID then st
         else
           (let st1 = (case hoveredEntityUUID st of
                         Uuid u \<Rightarrow>
                           if u \<noteq> '''' \<and> u \<notin> set (sel st)
                           then restyle u \<lparr> vs_selected = False, vs_hovered = False \<rparr> st
                           else st
                       | _ \<Rightarrow> st);
                st2 = st1 \<lparr> hoveredEntityUUID := hoveredUUID \<rparr>
            in case hoveredUUID of
                 Uuid u \<Rightarrow>
                   if u \<noteq> '''' \<and> u \<notin> set (sel st2)
                   then restyle u \<lparr> vs_selected = False, vs_hovered = True \<rparr> st2
                   else st2
               | _ \<Rightarrow> st2))"

definition updateHover :: "pointer_event \<Rightarrow> nat option \<Rightarrow> select_state \<Rightarrow> select_state" where
  "updateHover ev hit st = updateHover_resume ev hit (getIntersectedObject_begin ev st)"

subsection \<open>The rubber band\<close>

definition drawSelectionBox ::
  "real \<times> real \<Rightarrow> real \<times> real \<Rightarrow> select_state \<Rightarrow> select_state" where
  "drawSelectionBox s e st =
     st \<lparr> selectionBoxElement :=
            Some \<lparr> style_left = min (fst s) (fst e) + rect_left (container st)
                                  - parent_left (container st),
                   style_top = min (snd s) (snd e) + rect_top (container st)
                                 - parent_top (container st),
                   style_width = \<bar>fst e - fst s\<bar>,
                   style_height = \<bar>snd e - snd s\<bar> \<rparr> \<rparr>"

definition removeSelectionBox :: "select_state \<Rightarrow> select_state" where
  "removeSelectionBox st = st \<lparr> selectionBoxElement := None \<rparr>"

subsection \<open>Pointer and keyboard handlers\<close>

definition local_point :: "select_state \<Rightarrow> pointer_event \<Rightarrow> real \<times> real" where
  "local_point st ev =
     (clientX ev - rect_left (container st), clientY ev - rect_top (container st))"

definition onPointerDown :: "pointer_event \<Rightarrow> select_state \<Rightarrow> select_state" where
  "onPointerDown ev st =
     (if button ev \<noteq> 0 \<or> \<not> target_is_container ev then st
      else st \<lparr> isMouseDown := True, isDragging := False,
                startPoint := local_point st ev \<rparr>)"

text \<open>\<open>hit\<close> is the answer of the hover hit test, used when the button is not down.\<close>

definition onPointerMove :: "pointer_event \<Rightarrow> nat option \<Rightarrow> select_state \<Rightarrow> select_state" where
  "onPointerMove ev hit st =
     (if \<not> isMouseDown st then updateHover ev hit st
      else (let st1 = st \<lparr> isDragging := True \<rparr>
            in drawSelectionBox (startPoint st1) (local_point st1 ev) st1))"

text \<open>
  \<open>_onPointerUp\<close> is asynchronous: it runs up to its first \<open>await\<close>, and the rest runs when
  the hit test answers.  \<open>onPointerUp_begin\<close> is the part before the \<open>await\<close> of a click
  (for a drag, up to the end of the box selection); it says how the handler goes on:
  it has returned, it has resolved a box, or it waits for the hit test of a click with the
  captured \<open>isMultiSelect\<close>.
\<close>

datatype pointer_up_phase = Returned | Box_resolved | Awaiting_hit bool

definition onPointerUp_begin ::
  "pointer_event \<Rightarrow> select_state \<Rightarrow> pointer_up_phase \<times> select_state" where
  "onPointerUp_begin ev st =
     (if \<not> isMouseDown st \<or> button ev \<noteq> 0 then (Returned, st)
      else
        (let isMultiSelect = (ctrlKey ev \<or> metaKey ev);
             wasDragging = isDragging st;
             st1 = removeSelectionBox (st \<lparr> isMouseDown := False, isDragging := False \<rparr>)
         in if wasDragging
            then (Box_resolved,
                  performBoxSelection (startPoint st1) (local_point st1 ev) isMultiSelect st1)
            else (Awaiting_hit isMultiSelect, getIntersectedObject_begin ev st1)))"

text \<open>The click branch, from the answer \<open>hit\<close> of the hit test on.\<close>

definition onPointerUp_click ::
  "bool \<Rightarrow> pointer_event \<Rightarrow> nat option \<Rightarrow> select_state \<Rightarrow> select_state" where
  "onPointerUp_click isMultiSelect ev hit st =
     (case hit_uuid st (getIntersectedObject_resume ev hit st) of
        Uuid u \<Rightarrow>
          if u \<noteq> '''' then performSingleClickSelection u isMultiSelect st
          else if \<not> isMultiSelect then deselectAll st else st
      | _ \<Rightarrow> if \<not> isMultiSelect then deselectAll st else st)"

text \<open>
  The end of \<open>_onPointerUp\<close>: the hover update is started (it runs up to its own \<open>await\<close>)
  and the event is triggered with a copy of the selection.
\<close>

definition onPointerUp_notify :: "pointer_event \<Rightarrow> select_state \<Rightarrow> select_state" where
  "onPointerUp_notify ev st =
     (let st1 = getIntersectedObject_begin ev st;
          a = new_Set (sel st1) st1
      in trigger ''select'' (fst a) (snd a))"

text \<open>
  The whole handler when nothing else runs while it waits: \<open>hit_click\<close> answers the hit
  test of the click, \<open>hit_hover\<close> the one of the hover update, which completes last.
\<close>

definition onPointerUp ::
  "pointer_event \<Rightarrow> nat option \<Rightarrow> nat option \<Rightarrow> select_state \<Rightarrow> select_state" where
  "onPointerUp ev hit_click hit_hover st =
     (case onPointerUp_begin ev st of
        (Returned, st1) \<Rightarrow> st1
      | (Box_resolved, st1) \<Rightarrow> updateHover_resume ev hit_hover (onPointerUp_notify ev st1)
      | (Awaiting_hit m, st1) \<Rightarrow>
          updateHover_resume ev hit_hover
            (onPointerUp_notify ev (onPointerUp_click m ev hit_click st1)))"

definition onKeyDown :: "key_event \<Rightarrow> select_state \<Rightarrow> key_event \<times> select_state" where
  "onKeyDown ev st =
     (if key ev = ''Escape'' then
        (let st1 = deselectAll st;
             a = new_Set [] st1
         in (ev, trigger ''select'' (fst a) (snd a)))
      else if key ev = ''a'' \<and> (key_ctrlKey ev \<or> key_metaKey ev) then
        (let st1 = selectAll st;
             a = new_Set (sel st1) st1
         in (ev \<lparr> defaultPrevented := True \<rparr>, trigger ''select'' (fst a) (snd a)))
      else (ev, st))"

text \<open>\<open>dispose()\<close> of the controller.\<close>

definition dispose :: "select_state \<Rightarrow> select_state" where
  "dispose st =
     (let st1 = removeSelectionBox st
      in st1 \<lparr> set_store := (set_store st1)(selectedEntities st1 := []),
               hoveredEntityUUID := Null \<rparr>)"

text \<open>
  What holds of every state the controller reaches: the selection has no empty id and, being
  a Set, no id twice; its reference is allocated.
\<close>

definition sel_ok :: "select_state \<Rightarrow> bool" where
  "sel_ok st = (distinct (sel st) \<and> '''' \<notin> set (sel st))"

definition store_ok :: "select_state \<Rightarrow> bool" where
  "store_ok st = (selectedEntities st < next_ref st)"

text \<open>The pending interaction state: pressed, dragging, press origin.\<close>

definition pending :: "select_state \<Rightarrow> bool \<times> bool \<times> (real \<times> real)" where
  "pending st = (isMouseDown st, isDragging st, startPoint st)"

definition with_pending :: "bool \<times> bool \<times> (real \<times> real) \<Rightarrow> select_state \<Rightarrow> select_state" where
  "with_pending p st =
     st \<lparr> isMouseDown := fst p, isDragging := fst (snd p), startPoint := snd (snd p) \<rparr>"

text \<open>
  \<open>same_log st st'\<close>: from \<open>st\<close> to \<open>st'\<close> no event was triggered, no Set object was
  created and the selection is the same Set object.
\<close>

definition same_log :: "select_state \<Rightarrow> select_state \<Rightarrow> bool" where
  "same_log st st' =
     (events st' = events st \<and> next_ref st' = next_ref st
      \<and> selectedEntities st' = selectedEntities st)"

section \<open>A small scene\<close>

text \<open>
  Three entities with 2 by 2 bounds on a 200 by 200 pixel surface, seen through an
  orthographic camera whose view spans 20 by 20 world units.
\<close>

definition demo_container :: container where
  "demo_container =
     \<lparr> rect_left = 0, rect_top = 0, clientWidth = 200, clientHeight = 200,
       parent_left = 0, parent_top = 0 \<rparr>"

definition demo_camera :: camera where
  "demo_camera =
     \<lparr> kind = OrthographicCamera,
       unproject = (\<lambda>p. \<lparr> vx = 10 * vx p, vy = 10 * vy p, vz = 100 * vz p \<rparr>) \<rparr>"

definition demo_entity :: "string \<Rightarrow> real \<Rightarrow> real \<Rightarrow> entity" where
  "demo_entity u px py =
     \<lparr> uuid = u, ent_name = None,
       position = \<lparr> pos_x = px, pos_y = py, pos_z = None \<rparr>,
       xScale = None, yScale = None, rotation = None \<rparr>"

definition demo_def :: boundingBoxDef where
  "demo_def = \<lparr> bb_width = 2, bb_height = 2, bb_x = 0, bb_y = 0 \<rparr>"

text \<open>The manager after \<open>createBoundingBox(e, d)\<close>.\<close>

definition register :: "entity \<Rightarrow> boundingBoxDef \<Rightarrow> manager \<Rightarrow> manager" where
  "register e d mgr = snd (createBoundingBox (Some e) (Some d) mgr)"

definition demo_manager :: manager where
  "demo_manager =
     register (demo_entity ''C'' 3 0) demo_def
       (register (demo_entity ''B'' 5 0) demo_def
         (register (demo_entity ''A'' 0 0) demo_def new_BoundingBoxManager))"

definition demo_state :: select_state where
  "demo_state = new_Select demo_container demo_camera demo_manager"

definition demo_event :: "real \<Rightarrow> real \<Rightarrow> bool \<Rightarrow> pointer_event" where
  "demo_event px py multi =
     \<lparr> button = 0, target_is_container = True, target_present = True,
       clientX = px, clientY = py, ctrlKey = multi, metaKey = False \<rparr>"

definition escape_key :: key_event where
  "escape_key =
     \<lparr> key = ''Escape'', key_ctrlKey = False, key_metaKey = False,
       defaultPrevented = False \<rparr>"

text \<open>States of the controller on this scene: \<open>A\<close> selected; then \<open>B\<close> hovered as well;
  then the button pressed at (100, 100).\<close>

definition demo_selected_A :: select_state where
  "demo_selected_A = select ''A'' demo_state"

definition demo_hovering_B :: select_state where
  "demo_hovering_B = demo_selected_A \<lparr> hoveredEntityUUID := Uuid ''B'' \<rparr>"

definition demo_pressed :: select_state where
  "demo_pressed = onPointerDown (demo_event 100 100 False) demo_selected_A"

text \<open>The world box of the screen rectangle from (80, 80) to (150, 120).\<close>

definition demo_box :: box3 where
  "demo_box =
     \<lparr> box_min = \<lparr> vx = - 2, vy = - 2, vz = - 100 \<rparr>,
       box_max = \<lparr> vx = 5, vy = 2, vz = 100 \<rparr> \<rparr>"

text \<open>
  A click at (100, 100) on the fresh scene whose hit test has not answered yet, and the
  same state after a new press at (150, 100) and a move to (160, 90).
\<close>

definition demo_waiting :: select_state where
  "demo_waiting =
     snd (onPointerUp_begin (demo_event 100 100 False)
            (onPointerDown (demo_event 100 100 False) demo_state))"

definition demo_newer :: select_state where
  "demo_newer =
     onPointerMove (demo_event 160 90 False) None
       (onPointerDown (demo_event 150 100 False) demo_waiting)"

text \<open>A registry in which the id \<open>A\<close> was registered twice.\<close>

definition demo_twice :: manager where
  "demo_twice =
     register (demo_entity ''A'' 7 0) demo_def
       (register (demo_entity ''A'' 0 0) demo_def new_BoundingBoxManager)"

section \<open>Selection operations\<close>

lemma selectedEntities_select: "selectedEntities (select eid st) = selectedEntities st"
  by (simp add: select_def)

lemma selectedEntities_deselect: "selectedEntities (deselect eid st) = selectedEntities st"
  by (simp add: deselect_def)

lemma sel_select:
  "sel (select eid st) = (if eid = '''' \<or> eid \<in> set (sel st) then sel st else sel st @ [eid])"
  by (simp add: select_def sel_def Set_add_def)

lemma sel_deselect:
  "sel (deselect eid st) = (if eid = '''' then sel st else removeAll eid (sel st))"
  by (simp add: deselect_def sel_def Set_delete_def)

lemma hovered_select: "hoveredEntityUUID (select eid st) = hoveredEntityUUID st"
  by (simp add: select_def)

lemma hovered_deselect: "hoveredEntityUUID (deselect eid st) = hoveredEntityUUID st"
  by (simp add: deselect_def)

lemma sel_fold_deselect:
  "sel (fold deselect xs st) = filter (\<lambda>u. u = '''' \<or> u \<notin> set xs) (sel st)"
proof (induction xs arbitrary: st)
  case Nil
  show ?case by simp
next
  case (Cons x xs)
  show ?case
    by (simp add: Cons.IH sel_deselect removeAll_filter_not_eq) (auto intro: filter_cong)
qed

lemma sel_deselectAll: "sel (deselectAll st) = filter (\<lambda>u. u = '''') (sel st)"
  by (simp add: deselectAll_def sel_fold_deselect cong: filter_cong)

lemma sel_deselectAll_ok: "'''' \<notin> set (sel st) \<Longrightarrow> sel (deselectAll st) = []"
  by (auto simp: sel_deselectAll filter_empty_conv)

lemma hovered_fold_deselect: "hoveredEntityUUID (fold deselect xs st) = hoveredEntityUUID st"
  by (induction xs arbitrary: st) (simp_all add: hovered_deselect)

lemma hovered_deselectAll: "hoveredEntityUUID (deselectAll st) = hoveredEntityUUID st"
  by (simp add: deselectAll_def hovered_fold_deselect)

lemma hovered_fold_select: "hoveredEntityUUID (fold select xs st) = hoveredEntityUUID st"
  by (induction xs arbitrary: st) (simp_all add: hovered_select)

lemma hovered_selectAll_step: "hoveredEntityUUID (selectAll_step r st) = hoveredEntityUUID st"
  by (simp add: selectAll_step_def Let_def hovered_select)

lemma hovered_fold_selectAll_step:
  "hoveredEntityUUID (fold selectAll_step rs st) = hoveredEntityUUID st"
  by (induction rs arbitrary: st) (simp_all add: hovered_selectAll_step)

lemma hovered_selectAll: "hoveredEntityUUID (selectAll st) = hoveredEntityUUID st"
  by (simp add: selectAll_def hovered_fold_selectAll_step)

lemma hovered_performSingleClickSelection:
  "hoveredEntityUUID (performSingleClickSelection u m st) = hoveredEntityUUID st"
  by (simp add: performSingleClickSelection_def Let_def hovered_select hovered_deselect
      hovered_deselectAll)

lemma hovered_performBoxSelection:
  "hoveredEntityUUID (performBoxSelection s e m st) = hoveredEntityUUID st"
  by (simp add: performBoxSelection_def Let_def hovered_fold_select hovered_deselectAll
      split: option.split)

lemma singleton_selection:
  assumes "distinct xs"
  shows "(length xs = 1 \<and> E \<in> set xs) = (set xs = {E})"
proof
  assume "length xs = 1 \<and> E \<in> set xs"
  then obtain y where "xs = [y]" and "E \<in> set xs"
    by (cases xs) auto
  then show "set xs = {E}" by simp
next
  assume s: "set xs = {E}"
  from assms have "length xs = card (set xs)"
    by (simp add: distinct_card)
  with s show "length xs = 1 \<and> E \<in> set xs" by simp
qed

lemma sel_single_click:
  assumes "sel_ok st" and "E \<noteq> ''''"
  shows "sel (performSingleClickSelection E False st) = (if set (sel st) = {E} then [] else [E])"
proof -
  from assms(1) have d: "distinct (sel st)" and n: "'''' \<notin> set (sel st)"
    by (simp_all add: sel_ok_def)
  have e: "sel (deselectAll st) = []"
    using n by (rule sel_deselectAll_ok)
  show ?thesis
    using assms(2) e singleton_selection [OF d, of E]
    by (auto simp: performSingleClickSelection_def Let_def sel_select)
qed

lemma sel_ok_single_click:
  assumes "sel_ok st" and "E \<noteq> ''''"
  shows "sel_ok (performSingleClickSelection E False st)"
  using assms by (simp add: sel_ok_def sel_single_click [OF assms])

lemma sel_ok_new_Select: "sel_ok (new_Select c cam mgr)"
  by (simp add: sel_ok_def sel_def new_Select_def)

lemma sel_ok_select: "sel_ok st \<Longrightarrow> sel_ok (select eid st)"
  by (auto simp: sel_ok_def sel_select)

lemma sel_ok_deselect: "sel_ok st \<Longrightarrow> sel_ok (deselect eid st)"
  by (simp add: sel_ok_def sel_deselect distinct_removeAll)

lemma sel_ok_deselectAll: "sel_ok st \<Longrightarrow> sel_ok (deselectAll st)"
  by (simp add: sel_ok_def sel_deselectAll)

lemma sel_ok_fold_select: "sel_ok st \<Longrightarrow> sel_ok (fold select xs st)"
  by (induction xs arbitrary: st) (simp_all add: sel_ok_select)

lemma sel_ok_selectAll: "sel_ok st \<Longrightarrow> sel_ok (selectAll st)"
proof -
  have "sel_ok s \<Longrightarrow> sel_ok (fold selectAll_step rs s)" for rs s
    by (induction rs arbitrary: s) (simp_all add: selectAll_step_def Let_def sel_ok_select)
  then show "sel_ok st \<Longrightarrow> sel_ok (selectAll st)"
    by (simp add: selectAll_def)
qed

lemma store_ok_new_Select: "store_ok (new_Select c cam mgr)"
  by (simp add: store_ok_def new_Select_def)

lemma sel_ok_performBoxSelection: "sel_ok st \<Longrightarrow> sel_ok (performBoxSelection s e m st)"
  by (simp add: performBoxSelection_def Let_def sel_ok_fold_select sel_ok_deselectAll
      split: option.split)

section \<open>The small scene, evaluated\<close>

lemma demo_build_mesh:
  "build_mesh (demo_entity u px py) demo_def =
     \<lparr> mesh_name = ''bbox_'' @ u,
       mesh_scale = \<lparr> vx = 2, vy = 2, vz = 1 \<rparr>,
       rotation_z = 0,
       mesh_position = \<lparr> vx = px, vy = py, vz = 0 \<rparr>,
       entityUUID = u,
       material = Default_material,
       visible = True \<rparr>"
  by (simp add: build_mesh_def demo_entity_def demo_def_def new_Mesh_def
      truthy_rotation_def or_default_def)

lemma demo_mesh_fields:
  "visible (build_mesh (demo_entity u px py) demo_def)"
  "entityUUID (build_mesh (demo_entity u px py) demo_def) = u"
  "material (build_mesh (demo_entity u px py) demo_def) = Default_material"
  by (simp_all add: demo_build_mesh)

lemma demo_manager_eval:
  "demo_manager =
     \<lparr> meshes = [build_mesh (demo_entity ''A'' 0 0) demo_def,
                 build_mesh (demo_entity ''B'' 5 0) demo_def,
                 build_mesh (demo_entity ''C'' 3 0) demo_def],
       meshMap = [(''A'', 0), (''B'', 1), (''C'', 2)],
       boundingBoxMeshList = [0, 1, 2],
       scene = [0, 1, 2] \<rparr>"
  by (simp add: demo_manager_def register_def createBoundingBox_def
      new_BoundingBoxManager_def demo_entity_def)

lemma sel_demo_state: "sel demo_state = []"
  by (simp add: demo_state_def new_Select_def sel_def)

lemma sel_demo_selected_A: "sel demo_selected_A = [''A'']"
  by (simp add: demo_selected_A_def sel_select sel_demo_state)

lemma sel_ok_demo_selected_A: "sel_ok demo_selected_A"
  by (simp add: sel_ok_def sel_demo_selected_A)

lemma manager_demo_selected_A:
  "boundingBoxManager demo_selected_A =
     \<lparr> meshes = [build_mesh (demo_entity ''A'' 0 0) demo_def
                   \<lparr> material := Selected_material, visible := True \<rparr>,
                 build_mesh (demo_entity ''B'' 5 0) demo_def,
                 build_mesh (demo_entity ''C'' 3 0) demo_def],
       meshMap = [(''A'', 0), (''B'', 1), (''C'', 2)],
       boundingBoxMeshList = [0, 1, 2],
       scene = [0, 1, 2] \<rparr>"
proof -
  have "boundingBoxManager demo_selected_A =
      setVisualState ''A'' \<lparr> vs_selected = True, vs_hovered = False \<rparr> demo_manager"
    by (simp add: demo_selected_A_def select_def sel_demo_state)
      (simp add: demo_state_def new_Select_def)
  then show ?thesis
    by (simp add: setVisualState_def Map_get_def demo_manager_eval)
qed

section \<open>Claims about the selection operations\<close>

text \<open>
  C1.  A click without the modifier that hits entity \<open>E\<close> empties the selection when the
  selection was exactly \<open>{E}\<close> and otherwise makes it exactly \<open>{E}\<close>; so a click on \<open>A\<close>
  followed by a click on another entity \<open>E\<close> leaves \<open>{E}\<close>.  Stated for
  \<open>_performSingleClickSelection\<close> and for the click branch of \<open>_onPointerUp\<close> that
  calls it.
\<close>

theorem click_without_modifier:
  assumes "sel_ok st" and "E \<noteq> ''''"
  shows "sel (performSingleClickSelection E False st) = (if set (sel st) = {E} then [] else [E])
    \<and> (getIntersectedObject_resume ev hit st = Some r
         \<and> entityUUID (meshes (boundingBoxManager st) ! r) = E
       \<longrightarrow> sel (onPointerUp_click False ev hit st) = (if set (sel st) = {E} then [] else [E]))
    \<and> (A \<noteq> '''' \<and> A \<noteq> E
       \<longrightarrow> sel (performSingleClickSelection E False (performSingleClickSelection A False st))
           = [E])"
proof -
  note one = sel_single_click [OF assms]
  have two: "sel (onPointerUp_click False ev hit st) = (if set (sel st) = {E} then [] else [E])"
    if "getIntersectedObject_resume ev hit st = Some r"
      and "entityUUID (meshes (boundingBoxManager st) ! r) = E"
    using that assms(2) one by (simp add: onPointerUp_click_def hit_uuid_def)
  have three: "sel (performSingleClickSelection E False (performSingleClickSelection A False st))
      = [E]" if "A \<noteq> ''''" and "A \<noteq> E"
  proof -
    have ok: "sel_ok (performSingleClickSelection A False st)"
      using assms(1) that(1) by (rule sel_ok_single_click)
    have "set (sel (performSingleClickSelection A False st)) \<noteq> {E}"
      using that(2) by (simp add: sel_single_click [OF assms(1) that(1)])
    then show ?thesis
      by (simp add: sel_single_click [OF ok assms(2)])
  qed
  from one two three show ?thesis by blast
qed

theorem click_without_modifier_witness:
  "sel_ok demo_selected_A \<and> sel demo_selected_A = [''A'']
   \<and> sel (performSingleClickSelection ''A'' False demo_selected_A) = []
   \<and> getIntersectedObject_resume (demo_event 100 100 False) (Some 0) demo_selected_A = Some 0
   \<and> sel (onPointerUp_click False (demo_event 100 100 False) (Some 0) demo_selected_A) = []
   \<and> sel (performSingleClickSelection ''A'' False
            (performSingleClickSelection ''B'' False demo_selected_A)) = [''A'']"
proof -
  have h: "getIntersectedObject_resume (demo_event 100 100 False) (Some 0) demo_selected_A
      = Some 0"
    by (simp add: getIntersectedObject_resume_def demo_event_def manager_demo_selected_A
        Map_has_def demo_mesh_fields)
  have u: "entityUUID (meshes (boundingBoxManager demo_selected_A) ! 0) = ''A''"
    by (simp add: manager_demo_selected_A demo_mesh_fields)
  show ?thesis
    using click_without_modifier [OF sel_ok_demo_selected_A, of "''A''"
        "demo_event 100 100 False" "Some 0" 0 "''B''"] h u
    by (simp add: sel_ok_demo_selected_A sel_demo_selected_A)
qed

text \<open>
  C3 (as amended).  \<open>select(id)\<close> changes nothing when \<open>id\<close> is empty or already
  selected.  Otherwise it adds \<open>id\<close> to the selection, whether or not \<open>id\<close> has a
  registered volume: without one no volume changes, with one that volume becomes Selected
  and visible and every other volume stays as it was.
\<close>

theorem select_effect:
  "(eid = '''' \<or> eid \<in> set (sel st) \<longrightarrow> select eid st = st)
   \<and> (eid \<noteq> '''' \<and> eid \<notin> set (sel st) \<longrightarrow>
        sel (select eid st) = sel st @ [eid]
        \<and> (getMesh (boundingBoxManager st) eid = None \<longrightarrow>
             boundingBoxManager (select eid st) = boundingBoxManager st)
        \<and> (\<forall>r. getMesh (boundingBoxManager st) eid = Some r
                 \<and> r < length (meshes (boundingBoxManager st)) \<longrightarrow>
               material (meshes (boundingBoxManager (select eid st)) ! r) = Selected_material
               \<and> visible (meshes (boundingBoxManager (select eid st)) ! r)
               \<and> (\<forall>r'. r' \<noteq> r \<longrightarrow>
                      meshes (boundingBoxManager (select eid st)) ! r'
                      = meshes (boundingBoxManager st) ! r')))"
proof -
  have a: "select eid st = st" if "eid = '''' \<or> eid \<in> set (sel st)"
    using that by (simp add: select_def)
  have b: "sel (select eid st) = sel st @ [eid]" if "eid \<noteq> ''''" and "eid \<notin> set (sel st)"
    using that by (simp add: sel_select)
  have c: "boundingBoxManager (select eid st) = boundingBoxManager st"
    if "getMesh (boundingBoxManager st) eid = None"
    using that by (simp add: select_def getMesh_def setVisualState_def)
  have d: "material (meshes (boundingBoxManager (select eid st)) ! r) = Selected_material
      \<and> visible (meshes (boundingBoxManager (select eid st)) ! r)
      \<and> (\<forall>r'. r' \<noteq> r \<longrightarrow>
             meshes (boundingBoxManager (select eid st)) ! r'
             = meshes (boundingBoxManager st) ! r')"
    if "eid \<noteq> ''''" and "eid \<notin> set (sel st)"
      and "getMesh (boundingBoxManager st) eid = Some r"
      and "r < length (meshes (boundingBoxManager st))" for r
    using that by (simp add: select_def getMesh_def setVisualState_def)
  from a b c d show ?thesis by blast
qed

theorem select_effect_witness:
  "sel demo_state = [] \<and> getMesh (boundingBoxManager demo_state) ''B'' = Some 1
   \<and> sel (select ''B'' demo_state) = [''B'']
   \<and> material (meshes (boundingBoxManager (select ''B'' demo_state)) ! 1) = Selected_material
   \<and> visible (meshes (boundingBoxManager (select ''B'' demo_state)) ! 1)
   \<and> meshes (boundingBoxManager (select ''B'' demo_state)) ! 0
       = meshes (boundingBoxManager demo_state) ! 0"
proof -
  have m: "boundingBoxManager demo_state = demo_manager"
    by (simp add: demo_state_def new_Select_def)
  have g: "getMesh (boundingBoxManager demo_state) ''B'' = Some 1"
    by (simp add: m getMesh_def Map_get_def demo_manager_eval)
  have l: "1 < length (meshes (boundingBoxManager demo_state))"
    by (simp add: m demo_manager_eval)
  show ?thesis
    using select_effect [of "''B''" demo_state] g l
    by (simp add: sel_demo_state)
qed

theorem select_unregistered_counterexample:
  "getMesh (boundingBoxManager demo_state) ''ghost'' = None
   \<and> sel demo_state = [] \<and> sel (select ''ghost'' demo_state) = [''ghost'']"
proof -
  have "boundingBoxManager demo_state = demo_manager"
    by (simp add: demo_state_def new_Select_def)
  then show ?thesis
    by (simp add: getMesh_def Map_get_def demo_manager_eval sel_select sel_demo_state)
qed

text \<open>
  C4 (as amended).  When \<open>id\<close> is not in the selection (or is empty), \<open>select(id)\<close>
  followed by \<open>deselect(id)\<close> gives back the selection as it was.  When \<open>id\<close> was
  already selected, the pair removes it.
\<close>

theorem select_then_deselect:
  "(eid \<notin> set (sel st) \<or> eid = '''' \<longrightarrow> sel (deselect eid (select eid st)) = sel st)
   \<and> (eid \<in> set (sel st) \<and> eid \<noteq> '''' \<longrightarrow>
        sel (deselect eid (select eid st)) = removeAll eid (sel st))"
  by (simp add: sel_deselect sel_select)

theorem select_then_deselect_witness:
  "''B'' \<notin> set (sel demo_selected_A)
   \<and> sel (deselect ''B'' (select ''B'' demo_selected_A)) = sel demo_selected_A
   \<and> ''A'' \<in> set (sel demo_selected_A)
   \<and> sel (deselect ''A'' (select ''A'' demo_selected_A)) = removeAll ''A'' (sel demo_selected_A)"
  using select_then_deselect [of "''B''" demo_selected_A]
    select_then_deselect [of "''A''" demo_selected_A]
  by (simp add: sel_demo_selected_A)

theorem select_then_deselect_counterexample:
  "sel demo_selected_A = [''A'']
   \<and> sel (deselect ''A'' (select ''A'' demo_selected_A)) = []"
  by (simp add: sel_deselect sel_select sel_demo_selected_A)

section \<open>What the operations leave alone\<close>

lemma same_log_refl: "same_log st st"
  by (simp add: same_log_def)

lemma same_log_trans: "same_log a b \<Longrightarrow> same_log b c \<Longrightarrow> same_log a c"
  by (simp add: same_log_def)

lemma store_ok_same_log: "same_log st st' \<Longrightarrow> store_ok st \<Longrightarrow> store_ok st'"
  by (simp add: same_log_def store_ok_def)

lemma same_log_select: "same_log st (select eid st)"
  by (simp add: same_log_def select_def)

lemma same_log_deselect: "same_log st (deselect eid st)"
  by (simp add: same_log_def deselect_def)

lemma same_log_fold:
  assumes "\<And>x s. same_log s (f x s)"
  shows "same_log st (fold f xs st)"
proof (induction xs arbitrary: st)
  case Nil
  show ?case by (simp add: same_log_refl)
next
  case (Cons x xs)
  have "same_log st (f x st)" by (rule assms)
  moreover have "same_log (f x st) (fold f xs (f x st))" by (rule Cons.IH)
  ultimately show ?case by (simp add: same_log_trans)
qed

lemma same_log_deselectAll: "same_log st (deselectAll st)"
  unfolding deselectAll_def by (rule same_log_fold) (rule same_log_deselect)

lemma same_log_selectAll_step: "same_log st (selectAll_step r st)"
  by (simp add: selectAll_step_def Let_def same_log_select same_log_refl)

lemma same_log_selectAll: "same_log st (selectAll st)"
  unfolding selectAll_def by (rule same_log_fold) (rule same_log_selectAll_step)

lemma same_log_performSingleClickSelection:
  "same_log st (performSingleClickSelection u m st)"
proof -
  have "same_log st (select u (deselectAll st))"
    using same_log_deselectAll same_log_select by (rule same_log_trans)
  then show ?thesis
    by (simp add: performSingleClickSelection_def Let_def same_log_select same_log_deselect
        same_log_deselectAll)
qed

lemma same_log_performBoxSelection: "same_log st (performBoxSelection s e m st)"
proof -
  have a: "same_log t (fold select xs t)" for xs t
    by (rule same_log_fold) (rule same_log_select)
  have "same_log st (fold select xs (deselectAll st))" for xs
    using same_log_deselectAll a by (rule same_log_trans)
  with a show ?thesis
    by (simp add: performBoxSelection_def Let_def same_log_refl split: option.split)
qed

lemma same_log_restyle: "same_log st (restyle u vs st)"
  by (simp add: same_log_def restyle_def)

lemma same_log_getIntersectedObject_begin: "same_log st (getIntersectedObject_begin ev st)"
  by (simp add: same_log_def getIntersectedObject_begin_def)

lemma same_log_updateHover_resume: "same_log st (updateHover_resume ev hit st)"
  by (simp add: same_log_def updateHover_resume_def Let_def restyle_def
      split: js_uuid.split)

lemma same_log_updateHover: "same_log st (updateHover ev hit st)"
  unfolding updateHover_def
  using same_log_getIntersectedObject_begin same_log_updateHover_resume
  by (rule same_log_trans)

lemma same_log_onPointerUp_click: "same_log st (onPointerUp_click m ev hit st)"
  by (simp add: onPointerUp_click_def same_log_performSingleClickSelection
      same_log_deselectAll same_log_refl split: js_uuid.split)

lemma set_store_restyle: "set_store (restyle u vs st) = set_store st"
  by (simp add: restyle_def)

lemma set_store_updateHover_resume:
  "set_store (updateHover_resume ev hit st) = set_store st"
  by (simp add: updateHover_resume_def Let_def restyle_def split: js_uuid.split)

lemma sel_updateHover_resume: "sel (updateHover_resume ev hit st) = sel st"
  using same_log_updateHover_resume [of st ev hit]
  by (simp add: sel_def set_store_updateHover_resume same_log_def)

lemma sel_getIntersectedObject_begin: "sel (getIntersectedObject_begin ev st) = sel st"
  by (simp add: sel_def getIntersectedObject_begin_def)

section \<open>Hover and the selection operations\<close>

lemma hovered_onPointerUp_begin:
  "hoveredEntityUUID (snd (onPointerUp_begin ev st)) = hoveredEntityUUID st"
  by (simp add: onPointerUp_begin_def Let_def removeSelectionBox_def
      getIntersectedObject_begin_def hovered_performBoxSelection)

lemma hovered_onPointerUp_click:
  "hoveredEntityUUID (onPointerUp_click m ev hit st) = hoveredEntityUUID st"
  by (simp add: onPointerUp_click_def hovered_performSingleClickSelection
      hovered_deselectAll split: js_uuid.split)

lemma hovered_onPointerUp_notify:
  "hoveredEntityUUID (onPointerUp_notify ev st) = hoveredEntityUUID st"
  by (simp add: onPointerUp_notify_def Let_def trigger_def new_Set_def
      getIntersectedObject_begin_def)

lemma hovered_onKeyDown:
  "hoveredEntityUUID (snd (onKeyDown kev st)) = hoveredEntityUUID st"
  by (simp add: onKeyDown_def Let_def trigger_def new_Set_def hovered_deselectAll
      hovered_selectAll)

lemma hovered_drag:
  "isMouseDown st \<Longrightarrow> hoveredEntityUUID (onPointerMove ev hit st) = hoveredEntityUUID st"
  by (simp add: onPointerMove_def Let_def drawSelectionBox_def)

text \<open>
  C10.  \<open>select\<close>, \<open>deselect\<close>, \<open>deselectAll\<close> and \<open>selectAll\<close> leave the hovered
  entity id as it is; so does every other step of the controller that is not a hover
  update or \<open>dispose\<close>: click and box selection, pointer down, a move while the button is
  down, the pointer-up steps before the hover update, and the keyboard handler.
\<close>

theorem selection_operations_keep_hover:
  "hoveredEntityUUID (select eid st) = hoveredEntityUUID st
   \<and> hoveredEntityUUID (deselect eid st) = hoveredEntityUUID st
   \<and> hoveredEntityUUID (deselectAll st) = hoveredEntityUUID st
   \<and> hoveredEntityUUID (selectAll st) = hoveredEntityUUID st
   \<and> hoveredEntityUUID (performSingleClickSelection eid m st) = hoveredEntityUUID st
   \<and> hoveredEntityUUID (performBoxSelection s e m st) = hoveredEntityUUID st
   \<and> hoveredEntityUUID (onPointerDown ev st) = hoveredEntityUUID st
   \<and> (isMouseDown st \<longrightarrow> hoveredEntityUUID (onPointerMove ev hit st) = hoveredEntityUUID st)
   \<and> hoveredEntityUUID (snd (onPointerUp_begin ev st)) = hoveredEntityUUID st
   \<and> hoveredEntityUUID (onPointerUp_click m ev hit st) = hoveredEntityUUID st
   \<and> hoveredEntityUUID (onPointerUp_notify ev st) = hoveredEntityUUID st
   \<and> hoveredEntityUUID (snd (onKeyDown kev st)) = hoveredEntityUUID st"
proof -
  have "hoveredEntityUUID (onPointerDown ev st) = hoveredEntityUUID st"
    by (simp add: onPointerDown_def)
  then show ?thesis
    by (simp add: hovered_select hovered_deselect hovered_deselectAll hovered_selectAll
        hovered_performSingleClickSelection hovered_performBoxSelection hovered_drag
        hovered_onPointerUp_begin hovered_onPointerUp_click hovered_onPointerUp_notify
        hovered_onKeyDown)
qed

theorem selection_operations_keep_hover_witness:
  "hoveredEntityUUID demo_hovering_B = Uuid ''B''
   \<and> hoveredEntityUUID (select ''B'' demo_hovering_B) = Uuid ''B''
   \<and> hoveredEntityUUID (deselect ''A'' demo_hovering_B) = Uuid ''B''
   \<and> hoveredEntityUUID (deselectAll demo_hovering_B) = Uuid ''B''
   \<and> hoveredEntityUUID (selectAll demo_hovering_B) = Uuid ''B''
   \<and> isMouseDown (onPointerDown (demo_event 100 100 False) demo_hovering_B)
   \<and> hoveredEntityUUID
        (onPointerMove (demo_event 120 100 False) None
          (onPointerDown (demo_event 100 100 False) demo_hovering_B)) = Uuid ''B''"
proof -
  have h: "hoveredEntityUUID demo_hovering_B = Uuid ''B''"
    by (simp add: demo_hovering_B_def)
  have d: "isMouseDown (onPointerDown (demo_event 100 100 False) demo_hovering_B)"
    by (simp add: onPointerDown_def demo_event_def)
  show ?thesis
    using selection_operations_keep_hover [of "''B''" demo_hovering_B]
      selection_operations_keep_hover [of "''A''" demo_hovering_B]
      selection_operations_keep_hover
        [of _ "onPointerDown (demo_event 100 100 False) demo_hovering_B" _ _ _
          "demo_event 120 100 False" None]
      selection_operations_keep_hover [of _ demo_hovering_B _ _ _ "demo_event 100 100 False"]
      h d
    by simp
qed

section \<open>Notifications\<close>

text \<open>
  C8.  Escape empties the selection and triggers one \<open>select\<close> event whose payload is a new,
  empty Set, whatever the selection was, the empty selection included.
\<close>

theorem escape_clears_and_notifies:
  assumes "key kev = ''Escape''" and "'''' \<notin> set (sel st)"
  shows "sel (snd (onKeyDown kev st)) = []
    \<and> events (snd (onKeyDown kev st)) = events st @ [(''select'', next_ref st)]
    \<and> set_store (snd (onKeyDown kev st)) (next_ref st) = []"
proof -
  have l: "same_log st (deselectAll st)" by (rule same_log_deselectAll)
  have e: "sel (deselectAll st) = []" using assms(2) by (rule sel_deselectAll_ok)
  have "set_store (deselectAll st) (selectedEntities (deselectAll st)) = []"
    using e by (simp add: sel_def)
  with l show ?thesis
    using assms(1)
    by (simp add: onKeyDown_def Let_def new_Set_def trigger_def sel_def same_log_def)
qed

theorem escape_clears_and_notifies_witness:
  "key escape_key = ''Escape''
   \<and> sel demo_state = [] \<and> sel (snd (onKeyDown escape_key demo_state)) = []
   \<and> events (snd (onKeyDown escape_key demo_state)) = [(''select'', 1)]
   \<and> sel demo_selected_A = [''A''] \<and> sel (snd (onKeyDown escape_key demo_selected_A)) = []
   \<and> events (snd (onKeyDown escape_key demo_selected_A)) = [(''select'', 1)]
   \<and> set_store (snd (onKeyDown escape_key demo_selected_A)) 1 = []"
proof -
  have k: "key escape_key = ''Escape''" by (simp add: escape_key_def)
  have a: "'''' \<notin> set (sel demo_state)" by (simp add: sel_demo_state)
  have b: "'''' \<notin> set (sel demo_selected_A)" by (simp add: sel_demo_selected_A)
  have n: "next_ref demo_state = 1" "events demo_state = []"
    by (simp_all add: demo_state_def new_Select_def)
  have "same_log demo_state demo_selected_A"
    unfolding demo_selected_A_def by (rule same_log_select)
  with n have m: "next_ref demo_selected_A = 1" "events demo_selected_A = []"
    by (simp_all add: same_log_def)
  show ?thesis
    using escape_clears_and_notifies [OF k a] escape_clears_and_notifies [OF k b] n m
    by (simp add: k sel_demo_state sel_demo_selected_A)
qed

lemma same_log_onPointerUp_begin: "same_log st (snd (onPointerUp_begin ev st))"
proof -
  let ?s = "removeSelectionBox (st \<lparr> isMouseDown := False, isDragging := False \<rparr>)"
  have a: "same_log st ?s"
    by (simp add: same_log_def removeSelectionBox_def)
  have b: "same_log st (performBoxSelection p q m ?s)" for p q m
    using a same_log_performBoxSelection by (rule same_log_trans)
  have c: "same_log st (getIntersectedObject_begin ev ?s)"
    using a same_log_getIntersectedObject_begin by (rule same_log_trans)
  show ?thesis
    using b c by (simp add: onPointerUp_begin_def Let_def same_log_refl)
qed

lemma onPointerUp_shape:
  assumes "isMouseDown st" and "button ev = 0"
  shows "\<exists>s. same_log st s
            \<and> onPointerUp ev hc hh st = updateHover_resume ev hh (onPointerUp_notify ev s)"
proof (cases "isDragging st")
  case True
  let ?s = "snd (onPointerUp_begin ev st)"
  have "onPointerUp ev hc hh st = updateHover_resume ev hh (onPointerUp_notify ev ?s)"
    using assms True by (simp add: onPointerUp_def onPointerUp_begin_def Let_def)
  with same_log_onPointerUp_begin show ?thesis by blast
next
  case False
  let ?s1 = "snd (onPointerUp_begin ev st)"
  let ?s = "onPointerUp_click (ctrlKey ev \<or> metaKey ev) ev hc ?s1"
  have "onPointerUp ev hc hh st = updateHover_resume ev hh (onPointerUp_notify ev ?s)"
    using assms False by (simp add: onPointerUp_def onPointerUp_begin_def Let_def)
  moreover have "same_log st ?s"
    using same_log_onPointerUp_begin same_log_onPointerUp_click by (rule same_log_trans)
  ultimately show ?thesis by blast
qed

lemma notify_then_hover:
  assumes "selectedEntities s < next_ref s"
  shows "events (updateHover_resume ev hh (onPointerUp_notify ev s))
           = events s @ [(''select'', next_ref s)]
    \<and> selectedEntities (updateHover_resume ev hh (onPointerUp_notify ev s))
           = selectedEntities s
    \<and> set_store (updateHover_resume ev hh (onPointerUp_notify ev s))
           = (set_store s)(next_ref s := sel s)"
proof -
  let ?n = "onPointerUp_notify ev s"
  have n: "events ?n = events s @ [(''select'', next_ref s)]"
    "selectedEntities ?n = selectedEntities s"
    "set_store ?n = (set_store s)(next_ref s := sel s)"
    by (simp_all add: onPointerUp_notify_def Let_def new_Set_def trigger_def
        sel_getIntersectedObject_begin)
      (simp_all add: getIntersectedObject_begin_def)
  have "same_log ?n (updateHover_resume ev hh ?n)"
    by (rule same_log_updateHover_resume)
  with n show ?thesis
    by (simp add: same_log_def set_store_updateHover_resume)
qed

text \<open>
  C7.  A pointer release that the handler accepts (the primary button goes up while a press
  is pending) triggers exactly one \<open>select\<close> event.  Its payload is a Set object of its
  own, different from the selection Set, holding the elements of the selection at that
  moment; writing to the payload leaves the selection as it is.  A hover update and a
  pointer move trigger nothing.
\<close>

theorem pointer_up_emits_one_copy:
  assumes "isMouseDown st" and "button ev = 0" and "store_ok st"
  shows "events (onPointerUp ev hc hh st) = events st @ [(''select'', next_ref st)]
    \<and> next_ref st \<noteq> selectedEntities (onPointerUp ev hc hh st)
    \<and> set_store (onPointerUp ev hc hh st) (next_ref st) = sel (onPointerUp ev hc hh st)
    \<and> (\<forall>xs. sel ((onPointerUp ev hc hh st)
                   \<lparr> set_store := (set_store (onPointerUp ev hc hh st))(next_ref st := xs) \<rparr>)
              = sel (onPointerUp ev hc hh st))
    \<and> events (updateHover ev' hit st') = events st'
    \<and> events (onPointerMove ev' hit st') = events st'"
proof -
  obtain s where l: "same_log st s"
    and u: "onPointerUp ev hc hh st = updateHover_resume ev hh (onPointerUp_notify ev s)"
    using onPointerUp_shape [OF assms(1,2)] by blast
  from l assms(3) have f: "selectedEntities s < next_ref s"
    by (simp add: same_log_def store_ok_def)
  note n = notify_then_hover [OF f, of ev hh]
  have h: "events (updateHover ev' hit st') = events st'"
    using same_log_updateHover [of st' ev' hit] by (simp add: same_log_def)
  have m: "events (onPointerMove ev' hit st') = events st'"
    using h by (simp add: onPointerMove_def Let_def drawSelectionBox_def)
  show ?thesis
    using l f n h m by (simp add: u same_log_def sel_def)
qed

lemma demo_pressed_fields:
  "isMouseDown demo_pressed" "\<not> isDragging demo_pressed"
  "boundingBoxManager demo_pressed = boundingBoxManager demo_selected_A"
  "sel demo_pressed = [''A'']"
  "next_ref demo_pressed = 1" "events demo_pressed = []" "selectedEntities demo_pressed = 0"
proof -
  have "same_log demo_state demo_selected_A"
    unfolding demo_selected_A_def by (rule same_log_select)
  then have a: "next_ref demo_selected_A = 1" "events demo_selected_A = []"
    "selectedEntities demo_selected_A = 0"
    by (simp_all add: same_log_def demo_state_def new_Select_def)
  have p: "demo_pressed = demo_selected_A \<lparr> isMouseDown := True, isDragging := False,
      startPoint := local_point demo_selected_A (demo_event 100 100 False) \<rparr>"
    by (simp add: demo_pressed_def onPointerDown_def demo_event_def)
  show "isMouseDown demo_pressed" "\<not> isDragging demo_pressed"
    "boundingBoxManager demo_pressed = boundingBoxManager demo_selected_A"
    "next_ref demo_pressed = 1" "events demo_pressed = []" "selectedEntities demo_pressed = 0"
    by (simp_all add: p a)
  have "sel demo_pressed = sel demo_selected_A"
    by (simp add: p sel_def)
  then show "sel demo_pressed = [''A'']"
    by (simp add: sel_demo_selected_A)
qed

lemma demo_click_on_B:
  "sel (onPointerUp (demo_event 150 100 False) (Some 1) (Some 1) demo_pressed) = [''B'']"
proof -
  let ?ev = "demo_event 150 100 False"
  let ?s1 = "getIntersectedObject_begin ?ev
      (removeSelectionBox (demo_pressed \<lparr> isMouseDown := False, isDragging := False \<rparr>))"
  have b: "onPointerUp_begin ?ev demo_pressed = (Awaiting_hit False, ?s1)"
    by (simp add: onPointerUp_begin_def Let_def demo_pressed_fields)
      (simp add: demo_event_def)
  have m: "boundingBoxManager ?s1 = boundingBoxManager demo_selected_A"
    by (simp add: getIntersectedObject_begin_def removeSelectionBox_def demo_pressed_fields)
  have s: "sel ?s1 = [''A'']"
    using demo_pressed_fields(4)
    by (simp add: getIntersectedObject_begin_def removeSelectionBox_def sel_def)
  have ok: "sel_ok ?s1"
    by (simp add: sel_ok_def s)
  have g: "hit_uuid ?s1 (getIntersectedObject_resume ?ev (Some 1) ?s1) = Uuid ''B''"
    by (simp add: hit_uuid_def getIntersectedObject_resume_def m manager_demo_selected_A
        Map_has_def demo_mesh_fields)
      (simp add: demo_event_def)
  have c: "sel (onPointerUp_click False ?ev (Some 1) ?s1) = [''B'']"
    unfolding onPointerUp_click_def g
    using sel_single_click [OF ok, of "''B''"] by (simp add: s)
  have l: "same_log demo_pressed (onPointerUp_click False ?ev (Some 1) ?s1)"
  proof -
    have "same_log demo_pressed (snd (onPointerUp_begin ?ev demo_pressed))"
      by (rule same_log_onPointerUp_begin)
    then have "same_log demo_pressed ?s1" by (simp add: b)
    then show ?thesis
      using same_log_onPointerUp_click by (rule same_log_trans)
  qed
  then have f: "selectedEntities (onPointerUp_click False ?ev (Some 1) ?s1)
      < next_ref (onPointerUp_click False ?ev (Some 1) ?s1)"
    by (simp add: same_log_def demo_pressed_fields)
  have "sel (onPointerUp ?ev (Some 1) (Some 1) demo_pressed)
      = sel (onPointerUp_click False ?ev (Some 1) ?s1)"
    unfolding onPointerUp_def b using notify_then_hover [OF f, of ?ev "Some 1"] f
    by (simp add: sel_def)
  with c show ?thesis by simp
qed

theorem pointer_up_emits_one_copy_witness:
  "isMouseDown demo_pressed \<and> button (demo_event 150 100 False) = 0 \<and> store_ok demo_pressed
   \<and> events (onPointerUp (demo_event 150 100 False) (Some 1) (Some 1) demo_pressed)
       = [(''select'', 1)]
   \<and> set_store (onPointerUp (demo_event 150 100 False) (Some 1) (Some 1) demo_pressed) 1
       = [''B'']
   \<and> sel ((onPointerUp (demo_event 150 100 False) (Some 1) (Some 1) demo_pressed)
           \<lparr> set_store :=
               (set_store (onPointerUp (demo_event 150 100 False) (Some 1) (Some 1)
                  demo_pressed))(1 := []) \<rparr>) = [''B'']"
proof -
  have a: "isMouseDown demo_pressed" by (rule demo_pressed_fields)
  have b: "button (demo_event 150 100 False) = 0" by (simp add: demo_event_def)
  have c: "store_ok demo_pressed" by (simp add: store_ok_def demo_pressed_fields)
  show ?thesis
    using pointer_up_emits_one_copy [OF a b c, of "Some 1" "Some 1"] a b c demo_click_on_B
    by (simp add: demo_pressed_fields)
qed

section \<open>Box selection\<close>

lemma set_Set_add: "set (Set_add u s) = insert u (set s)"
  by (auto simp: Set_add_def)

lemma set_entitiesInBox_loop:
  assumes "\<not> materials_default_visible st"
  shows "set (entitiesInBox_loop st box rs acc) =
           set acc \<union>
           {entityUUID (meshes (boundingBoxManager st) ! r) | r.
              r \<in> set rs
              \<and> visible (meshes (boundingBoxManager st) ! r)
              \<and> containsBox box (setFromObject (meshes (boundingBoxManager st) ! r))
              \<and> entityUUID (meshes (boundingBoxManager st) ! r) \<noteq> ''''}"
proof (induction rs arbitrary: acc)
  case Nil
  show ?case by simp
next
  case (Cons r rs)
  show ?case
    using assms by (simp add: Cons.IH Let_def set_Set_add) blast
qed

lemma sel_fold_select:
  "set (sel (fold select xs st)) = set (sel st) \<union> (set xs - {''''})"
proof (induction xs arbitrary: st)
  case Nil
  show ?case by simp
next
  case (Cons x xs)
  show ?case
    by (simp add: Cons.IH sel_select) blast
qed

text \<open>
  C2.  The candidate set of a box selection holds the ids of exactly those meshes of
  \<open>boundingBoxMeshList\<close> that are visible and whose world box lies inside the selection
  box (\<open>containsBox\<close>, not \<open>intersectsBox\<close>).  Without the modifier, and on a surface of
  positive size, the selection becomes that set.
\<close>

theorem box_candidates_are_contained:
  assumes "\<not> materials_default_visible st"
  shows "set (entitiesInBox st box) =
           {entityUUID (meshes (boundingBoxManager st) ! r) | r.
              r \<in> set (boundingBoxMeshList (boundingBoxManager st))
              \<and> visible (meshes (boundingBoxManager st) ! r)
              \<and> containsBox box (setFromObject (meshes (boundingBoxManager st) ! r))
              \<and> entityUUID (meshes (boundingBoxManager st) ! r) \<noteq> ''''}
    \<and> (sel_ok st \<and> 0 < clientWidth (container st) \<and> 0 < clientHeight (container st)
         \<and> get3DSelectionBox st s e = Some box
       \<longrightarrow> set (sel (performBoxSelection s e False st)) = set (entitiesInBox st box))"
proof -
  have a: "set (entitiesInBox st box) =
           {entityUUID (meshes (boundingBoxManager st) ! r) | r.
              r \<in> set (boundingBoxMeshList (boundingBoxManager st))
              \<and> visible (meshes (boundingBoxManager st) ! r)
              \<and> containsBox box (setFromObject (meshes (boundingBoxManager st) ! r))
              \<and> entityUUID (meshes (boundingBoxManager st) ! r) \<noteq> ''''}"
    by (simp add: entitiesInBox_def set_entitiesInBox_loop [OF assms])
  then have n: "'''' \<notin> set (entitiesInBox st box)"
    by auto
  have b: "set (sel (performBoxSelection s e False st)) = set (entitiesInBox st box)"
    if "sel_ok st" and "get3DSelectionBox st s e = Some box"
  proof -
    from that(1) have "sel (deselectAll st) = []"
      by (simp add: sel_ok_def sel_deselectAll_ok)
    with n show ?thesis
      using that(2) by (simp add: performBoxSelection_def Let_def sel_fold_select)
  qed
  from a b show ?thesis by blast
qed

lemma demo_get3DSelectionBox:
  "get3DSelectionBox demo_state (80, 80) (150, 120) = Some demo_box"
  by (simp add: get3DSelectionBox_def demo_state_def new_Select_def demo_container_def
      demo_camera_def toNDC_def setFromPoints_def expandByPoint_def demo_box_def)

lemma demo_setFromObject:
  "setFromObject (build_mesh (demo_entity u px py) demo_def) =
     \<lparr> box_min = \<lparr> vx = px - 1, vy = py - 1, vz = 0 \<rparr>,
       box_max = \<lparr> vx = px + 1, vy = py + 1, vz = 0 \<rparr> \<rparr>"
  by (simp add: demo_build_mesh setFromObject_def localToWorld_def setFromPoints_def
      expandByPoint_def)

lemma demo_entitiesInBox: "entitiesInBox demo_state demo_box = [''A'', ''C'']"
  by (simp add: entitiesInBox_def demo_state_def new_Select_def demo_manager_eval
      demo_setFromObject containsBox_def Set_add_def Let_def demo_mesh_fields demo_box_def)

lemma demo_B_intersects:
  "intersectsBox demo_box (setFromObject (meshes (boundingBoxManager demo_state) ! 1))
   \<and> \<not> containsBox demo_box (setFromObject (meshes (boundingBoxManager demo_state) ! 1))
   \<and> entityUUID (meshes (boundingBoxManager demo_state) ! 1) = ''B''"
  by (simp add: demo_state_def new_Select_def demo_manager_eval demo_setFromObject
      containsBox_def intersectsBox_def demo_mesh_fields demo_box_def)

theorem box_candidates_are_contained_witness:
  "\<not> materials_default_visible demo_state \<and> sel_ok demo_state
   \<and> 0 < clientWidth (container demo_state) \<and> 0 < clientHeight (container demo_state)
   \<and> get3DSelectionBox demo_state (80, 80) (150, 120) = Some demo_box
   \<and> intersectsBox demo_box (setFromObject (meshes (boundingBoxManager demo_state) ! 1))
   \<and> entityUUID (meshes (boundingBoxManager demo_state) ! 1) = ''B''
   \<and> set (entitiesInBox demo_state demo_box) = {''A'', ''C''}
   \<and> set (sel (performBoxSelection (80, 80) (150, 120) False demo_state)) = {''A'', ''C''}"
proof -
  have a: "\<not> materials_default_visible demo_state"
    by (simp add: demo_state_def new_Select_def)
  have b: "sel_ok demo_state"
    unfolding demo_state_def by (rule sel_ok_new_Select)
  have c: "0 < clientWidth (container demo_state)" "0 < clientHeight (container demo_state)"
    by (simp_all add: demo_state_def new_Select_def demo_container_def)
  show ?thesis
    using box_candidates_are_contained [OF a, of demo_box "(80, 80)" "(150, 120)"]
      a b c demo_get3DSelectionBox demo_B_intersects
    by (simp add: demo_entitiesInBox)
qed

section \<open>A hit test that answers late\<close>

lemma sel_with_pending: "sel (with_pending p st) = sel st"
  by (simp add: sel_def with_pending_def)

lemma select_with_pending:
  "select u (with_pending p st) = with_pending p (select u st)"
  by (simp add: select_def sel_with_pending) (simp add: with_pending_def sel_def)

lemma deselect_with_pending:
  "deselect u (with_pending p st) = with_pending p (deselect u st)"
  by (simp add: deselect_def sel_with_pending) (simp add: with_pending_def sel_def)

lemma fold_deselect_with_pending:
  "fold deselect xs (with_pending p st) = with_pending p (fold deselect xs st)"
  by (induction xs arbitrary: st) (simp_all add: deselect_with_pending)

lemma deselectAll_with_pending:
  "deselectAll (with_pending p st) = with_pending p (deselectAll st)"
  by (simp add: deselectAll_def sel_with_pending fold_deselect_with_pending)

lemma performSingleClickSelection_with_pending:
  "performSingleClickSelection u m (with_pending p st)
     = with_pending p (performSingleClickSelection u m st)"
  by (simp add: performSingleClickSelection_def Let_def sel_with_pending
      select_with_pending deselect_with_pending deselectAll_with_pending)

lemma hit_with_pending:
  "hit_uuid (with_pending p st) (getIntersectedObject_resume ev hit (with_pending p st))
     = hit_uuid st (getIntersectedObject_resume ev hit st)"
  by (simp add: hit_uuid_def getIntersectedObject_resume_def with_pending_def
      split: option.split)

lemma onPointerUp_click_with_pending:
  "onPointerUp_click m ev hit (with_pending p st)
     = with_pending p (onPointerUp_click m ev hit st)"
  by (simp add: onPointerUp_click_def hit_with_pending
      performSingleClickSelection_with_pending deselectAll_with_pending
      split: js_uuid.split)

lemma pending_with_pending: "pending (with_pending p st) = p"
  by (simp add: pending_def with_pending_def)

text \<open>
  C9 (as amended).  When the hit test of a click answers, the handler applies the answer
  to the selection as it then is, with the modifier flag captured at the release.  It
  neither reads nor writes the pending interaction state: whatever that state has become,
  the selection that results is the same, and the pending state is left as it was found.
  No answer is discarded.
\<close>

theorem late_hit_is_applied:
  "sel (onPointerUp_click m ev hit (with_pending p st)) = sel (onPointerUp_click m ev hit st)
   \<and> pending (onPointerUp_click m ev hit (with_pending p st)) = p
   \<and> (sel_ok st \<and> E \<noteq> ''''
        \<and> hit_uuid st (getIntersectedObject_resume ev hit st) = Uuid E
      \<longrightarrow> sel (onPointerUp_click False ev hit (with_pending p st))
          = (if set (sel st) = {E} then [] else [E]))"
proof -
  have a: "sel (onPointerUp_click m' ev hit (with_pending p st))
      = sel (onPointerUp_click m' ev hit st)" for m'
    by (simp add: onPointerUp_click_with_pending sel_with_pending)
  have b: "pending (onPointerUp_click m ev hit (with_pending p st)) = p"
    by (simp add: onPointerUp_click_with_pending pending_with_pending)
  have c: "sel (onPointerUp_click False ev hit st) = (if set (sel st) = {E} then [] else [E])"
    if "sel_ok st" and "E \<noteq> ''''"
      and "hit_uuid st (getIntersectedObject_resume ev hit st) = Uuid E"
    using that sel_single_click [OF that(1,2)] by (simp add: onPointerUp_click_def)
  from a b c show ?thesis by simp
qed

lemma demo_waiting_eval:
  "onPointerUp_begin (demo_event 100 100 False)
     (onPointerDown (demo_event 100 100 False) demo_state) = (Awaiting_hit False, demo_waiting)"
  "boundingBoxManager demo_waiting = demo_manager"
  "sel demo_waiting = []"
  "pending demo_waiting = (False, False, (100, 100))"
proof -
  have e: "button (demo_event x y False) = 0" "target_is_container (demo_event x y False)"
    "target_present (demo_event x y False)" "\<not> ctrlKey (demo_event x y False)"
    "\<not> metaKey (demo_event x y False)" "clientX (demo_event x y False) = x"
    "clientY (demo_event x y False) = y" for x y
    by (simp_all add: demo_event_def)
  have c: "rect_left (container demo_state) = 0" "rect_top (container demo_state) = 0"
    "boundingBoxManager demo_state = demo_manager"
    by (simp_all add: demo_state_def new_Select_def demo_container_def)
  show "onPointerUp_begin (demo_event 100 100 False)
     (onPointerDown (demo_event 100 100 False) demo_state) = (Awaiting_hit False, demo_waiting)"
    by (simp add: demo_waiting_def onPointerUp_begin_def onPointerDown_def Let_def e)
  show "boundingBoxManager demo_waiting = demo_manager"
    by (simp add: demo_waiting_def onPointerUp_begin_def onPointerDown_def Let_def e c
        getIntersectedObject_begin_def removeSelectionBox_def)
  show "sel demo_waiting = []"
    using sel_demo_state
    by (simp add: demo_waiting_def onPointerUp_begin_def onPointerDown_def Let_def e
        getIntersectedObject_begin_def removeSelectionBox_def sel_def)
  show "pending demo_waiting = (False, False, (100, 100))"
    by (simp add: demo_waiting_def onPointerUp_begin_def onPointerDown_def Let_def e c
        getIntersectedObject_begin_def removeSelectionBox_def pending_def local_point_def)
qed

lemma demo_newer_eval:
  "boundingBoxManager demo_newer = demo_manager"
  "sel demo_newer = []"
  "pending demo_newer = (True, True, (150, 100))"
proof -
  have e: "button (demo_event x y False) = 0" "target_is_container (demo_event x y False)"
    "clientX (demo_event x y False) = x" "clientY (demo_event x y False) = y" for x y
    by (simp_all add: demo_event_def)
  have "same_log demo_state (snd (onPointerUp_begin (demo_event 100 100 False)
     (onPointerDown (demo_event 100 100 False) demo_state)))"
    using same_log_onPointerUp_begin [of "onPointerDown (demo_event 100 100 False) demo_state"]
    by (simp add: same_log_def onPointerDown_def)
  then have l: "selectedEntities demo_waiting = selectedEntities demo_state"
    by (simp add: demo_waiting_eval(1) same_log_def)
  have c: "rect_left (container demo_waiting) = 0" "rect_top (container demo_waiting) = 0"
    by (simp_all add: demo_waiting_def onPointerUp_begin_def onPointerDown_def Let_def e
        getIntersectedObject_begin_def removeSelectionBox_def demo_state_def new_Select_def
        demo_container_def)
  show "boundingBoxManager demo_newer = demo_manager"
    using demo_waiting_eval(2)
    by (simp add: demo_newer_def onPointerMove_def onPointerDown_def Let_def e
        drawSelectionBox_def)
  show "sel demo_newer = []"
    using demo_waiting_eval(3)
    by (simp add: demo_newer_def onPointerMove_def onPointerDown_def Let_def e
        drawSelectionBox_def sel_def)
  show "pending demo_newer = (True, True, (150, 100))"
    by (simp add: demo_newer_def onPointerMove_def onPointerDown_def Let_def e c
        drawSelectionBox_def pending_def local_point_def)
qed

lemma demo_hit_A:
  assumes "boundingBoxManager st = demo_manager"
  shows "hit_uuid st (getIntersectedObject_resume (demo_event 100 100 False) (Some 0) st)
           = Uuid ''A''"
  by (simp add: hit_uuid_def getIntersectedObject_resume_def assms demo_manager_eval
      Map_has_def demo_mesh_fields demo_event_def)

theorem late_hit_is_applied_witness:
  "sel_ok demo_waiting \<and> sel demo_waiting = []
   \<and> hit_uuid demo_waiting
        (getIntersectedObject_resume (demo_event 100 100 False) (Some 0) demo_waiting)
       = Uuid ''A''
   \<and> pending demo_waiting = (False, False, (100, 100))
   \<and> pending (onPointerUp_click False (demo_event 100 100 False) (Some 0)
                (with_pending (True, True, (150, 100)) demo_waiting))
       = (True, True, (150, 100))
   \<and> sel (onPointerUp_click False (demo_event 100 100 False) (Some 0)
            (with_pending (True, True, (150, 100)) demo_waiting)) = [''A'']"
proof -
  have ok: "sel_ok demo_waiting"
    by (simp add: sel_ok_def demo_waiting_eval)
  show ?thesis
    using late_hit_is_applied [of False "demo_event 100 100 False" "Some 0"
        "(True, True, (150, 100))" demo_waiting "''A''"]
      ok demo_hit_A [OF demo_waiting_eval(2)]
    by (auto simp: demo_waiting_eval)
qed

theorem late_hit_counterexample:
  "onPointerUp_begin (demo_event 100 100 False)
     (onPointerDown (demo_event 100 100 False) demo_state) = (Awaiting_hit False, demo_waiting)
   \<and> pending demo_waiting = (False, False, (100, 100))
   \<and> pending demo_newer = (True, True, (150, 100))
   \<and> sel demo_newer = []
   \<and> sel (onPointerUp_click False (demo_event 100 100 False) (Some 0) demo_newer) = [''A'']"
proof -
  have ok: "sel_ok demo_newer"
    by (simp add: sel_ok_def demo_newer_eval)
  have "sel (onPointerUp_click False (demo_event 100 100 False) (Some 0) demo_newer) = [''A'']"
    using sel_single_click [OF ok, of "''A''"]
    by (simp add: onPointerUp_click_def demo_hit_A [OF demo_newer_eval(1)] demo_newer_eval)
  then show ?thesis
    by (simp add: demo_waiting_eval demo_newer_eval)
qed

section \<open>Registration\<close>

lemma createBoundingBox_new_mesh:
  assumes "uuid e \<noteq> ''''"
  shows "fst (createBoundingBox (Some e) (Some d) mgr) = Some (length (meshes mgr))
    \<and> meshes (register e d mgr) ! length (meshes mgr) = build_mesh e d
    \<and> material (build_mesh e d) = Default_material
    \<and> visible (build_mesh e d)"
  using assms
  by (simp add: createBoundingBox_def register_def Let_def build_mesh_def new_Mesh_def)

lemma createBoundingBox_missing:
  "createBoundingBox None bo mgr = (None, mgr)"
  "createBoundingBox eo None mgr = (None, mgr)"
  "uuid e = '''' \<Longrightarrow> createBoundingBox (Some e) bo mgr = (None, mgr)"
  by (simp_all add: createBoundingBox_def split: option.split)

text \<open>
  C5.  Registering entity \<open>A\<close> in an empty registry and building a controller on it:
  \<open>A\<close> is not selected and its mesh has the default material, but the \<open>visible\<close> flag
  of the mesh is true, since \<open>createBoundingBox\<close> never assigns it.
\<close>

theorem registered_volume_is_flagged_visible:
  "fst (createBoundingBox (Some (demo_entity ''A'' 0 0)) (Some demo_def)
         new_BoundingBoxManager) = Some 0
   \<and> \<not> isSelected
         (new_Select demo_container demo_camera
           (register (demo_entity ''A'' 0 0) demo_def new_BoundingBoxManager)) ''A''
   \<and> material (meshes (register (demo_entity ''A'' 0 0) demo_def new_BoundingBoxManager) ! 0)
       = Default_material
   \<and> visible (meshes (register (demo_entity ''A'' 0 0) demo_def new_BoundingBoxManager) ! 0)
       = True"
proof -
  have u: "uuid (demo_entity ''A'' 0 0) \<noteq> ''''"
    by (simp add: demo_entity_def)
  have "\<not> isSelected (new_Select demo_container demo_camera m) ''A''" for m
    by (simp add: isSelected_def sel_def new_Select_def)
  then show ?thesis
    using createBoundingBox_new_mesh [OF u, of demo_def new_BoundingBoxManager]
    by (simp add: new_BoundingBoxManager_def)
qed

text \<open>
  C6.  Registering the id \<open>A\<close> twice: the map keeps one mesh for \<open>A\<close>, the last one,
  while \<open>boundingBoxMeshList\<close> and the scene hold both meshes; \<open>dispose\<close> then removes
  only the mapped one from the scene.
\<close>

theorem register_twice_leaves_two_volumes:
  "meshMap demo_twice = [(''A'', 1)]
   \<and> boundingBoxMeshList demo_twice = [0, 1]
   \<and> scene demo_twice = [0, 1]
   \<and> entityUUID (meshes demo_twice ! 0) = ''A''
   \<and> entityUUID (meshes demo_twice ! 1) = ''A''
   \<and> scene (manager_dispose demo_twice) = [0]"
proof -
  have e: "demo_twice =
     \<lparr> meshes = [build_mesh (demo_entity ''A'' 0 0) demo_def,
                 build_mesh (demo_entity ''A'' 7 0) demo_def],
       meshMap = [(''A'', 1)],
       boundingBoxMeshList = [0, 1],
       scene = [0, 1] \<rparr>"
    by (simp add: demo_twice_def register_def createBoundingBox_def
        new_BoundingBoxManager_def demo_entity_def)
  show ?thesis
    by (simp add: e manager_dispose_def demo_mesh_fields)
qed

end
